theory Spec2Isabelle
  imports Complex_Main
begin

section \<open>The HTTP client of paperswithcode (paperswithcode/http.py)\<close>

text \<open>
  A shallow embedding of \<^verbatim>\<open>HttpClient.request\<close>. Python strings are lists of
  characters with code points below 256, dictionaries are maps, the attributes of the
  client object are a record that \<open>request\<close> returns updated, an exception is the left
  summand of the result, and every call made on the \<^verbatim>\<open>httpx\<close> client is appended
  to a log that \<open>request\<close> returns with its result.
\<close>

subsection \<open>Python strings and values\<close>

definition isspace :: "char \<Rightarrow> bool" where
  \<comment> \<open>\<^verbatim>\<open>str.isspace\<close> on one character, for the code points below 256\<close>
  "isspace c = (let n = (of_char c :: nat) in
     (9 \<le> n \<and> n \<le> 13) \<or> (28 \<le> n \<and> n \<le> 32) \<or> n = 133 \<or> n = 160)"

definition strip :: "string \<Rightarrow> string" where
  \<comment> \<open>\<^verbatim>\<open>str.strip()\<close>: leading and trailing whitespace removed\<close>
  "strip s = rev (dropWhile isspace (rev (dropWhile isspace s)))"

definition lower_char :: "char \<Rightarrow> char" where
  "lower_char c = (let n = (of_char c :: nat) in
     if (65 \<le> n \<and> n \<le> 90) \<or> (192 \<le> n \<and> n \<le> 222 \<and> n \<noteq> 215)
     then char_of (n + 32) else c)"

definition lower :: "string \<Rightarrow> string" where
  \<comment> \<open>\<^verbatim>\<open>str.lower()\<close>\<close>
  "lower s = map lower_char s"

datatype pyval = PyStr string | PyInt int

fun py_eq :: "pyval \<Rightarrow> pyval \<Rightarrow> bool" where
  \<comment> \<open>Python's \<^verbatim>\<open>==\<close> between strings and integers: values of the two types are never equal\<close>
  "py_eq (PyStr a) (PyStr b) = (a = b)"
| "py_eq (PyInt a) (PyInt b) = (a = b)"
| "py_eq _ _ = False"

text \<open>The values \<^verbatim>\<open>json.loads\<close> produces; a \<^verbatim>\<open>dict\<close> is an association list
  read with \<open>map_of\<close>.\<close>

datatype json_value =
    JNull
  | JBool bool
  | JInt int
  | JFloat real
  | JString string
  | JArray "json_value list"
  | JObject "(string \<times> json_value) list"

fun subscript :: "json_value \<Rightarrow> string \<Rightarrow> json_value option" where
  \<comment> \<open>\<^verbatim>\<open>v[key]\<close> with a string key; \<open>None\<close> where Python raises KeyError or TypeError\<close>
  "subscript (JObject kvs) k = map_of kvs k"
| "subscript _ k = None"

subsection \<open>The data of the client\<close>

datatype AuthorizationMethod = basic_method | token_method | jwt_method

fun value_of :: "AuthorizationMethod \<Rightarrow> string" where
  "value_of basic_method = ''Basic''"
| "value_of token_method = ''Token''"
| "value_of jwt_method = ''JWT''"

text \<open>An \<^verbatim>\<open>httpx.Response\<close>, as far as \<open>request\<close> reads it. Header values are
  strings. \<open>json\<close> is the outcome of \<^verbatim>\<open>response.json()\<close>: the parsed value, or
  \<open>Inl\<close> the \<^verbatim>\<open>repr\<close> of the exception it raises.\<close>

record Response =
  status_code :: int
  body_text :: string
  response_headers :: "string \<rightharpoonup> string"
  json :: "string + json_value"

text \<open>Modelled from the spec: the error classes of \<^verbatim>\<open>paperswithcode/errors.py\<close>, which is
  not among the sources. The spec names one kind of error for each raise site; the code
  raises three classes, and an error is recorded here by its class and the arguments that
  its raise site passes: \<open>HttpClientError message response status_code\<close>,
  \<open>HttpClientTimeout\<close>, \<open>HttpRateLimitExceeded response limit remaining reset retry\<close>.
  The message is a string (\<open>JString\<close>) or a value read from the body. The classes are
  taken to derive from \<^verbatim>\<open>Exception\<close>, as the exceptions of a library do, so that the
  handler of line 138 catches them. \<open>KeyError\<close> is Python's own, raised by
  \<^verbatim>\<open>response.headers[name]\<close> for a header that is absent.\<close>

datatype error =
    HttpClientError json_value "Response option" "int option"
  | HttpClientTimeout
  | HttpRateLimitExceeded Response string string string string
  | KeyError string

text \<open>What the body of the \<^verbatim>\<open>try\<close> statement can raise, by the handler that catches it.\<close>

datatype exn =
    TimeoutException string
  | ConnectionError string
  | OtherException string
  | Raised error

record HttpClient =
  url :: string
  token :: string
  authorization_method :: AuthorizationMethod
  timeout :: real
  headers :: "string \<rightharpoonup> string"
  response :: "Response option"

text \<open>One call of \<^verbatim>\<open>client.get\<close>, \<^verbatim>\<open>client.patch\<close>, \<^verbatim>\<open>client.post\<close> or
  \<^verbatim>\<open>client.delete\<close> with its keyword arguments, on the \<^verbatim>\<open>httpx.Client\<close> built
  from \<open>base_url\<close> and \<open>client_headers\<close>. \<open>data_arg\<close> is \<open>None\<close> for the two
  methods that pass no \<^verbatim>\<open>data\<close>.\<close>

record Call =
  client_method :: string
  base_url :: string
  client_headers :: "string \<rightharpoonup> string"
  url_arg :: string
  headers_arg :: "string \<rightharpoonup> string"
  params_arg :: "(string \<rightharpoonup> string) option"
  data_arg :: "(string \<times> json_value) list option"
  timeout_arg :: real

text \<open>The world outside the function: whether \<^verbatim>\<open>httpx.Client(...)\<close> can be built
  (\<open>Some e\<close> when it raises \<open>e\<close>), what a call returns or raises, and \<^verbatim>\<open>repr\<close> on an
  exception.\<close>

record env =
  Client :: "string \<Rightarrow> (string \<rightharpoonup> string) \<Rightarrow> exn option"
  send :: "Call \<Rightarrow> exn + Response"
  repr :: "exn \<Rightarrow> string"

subsection \<open>The class attributes and the constructor\<close>

definition ERRORS :: "int \<rightharpoonup> string" where
  "ERRORS = map_of
     [(401, ''Unauthorized''),
      (403, ''Forbidden!''),
      (404, ''Not found.''),
      (409, ''Conflict''),
      (429, ''Under pressure! (Too many requests)''),
      (500, ''You broke it!!!''),
      (502, ''Server not reachable.''),
      (503, ''Server under maintenance.'')]"

definition init :: "string \<Rightarrow> string \<Rightarrow> AuthorizationMethod \<Rightarrow> real \<Rightarrow> HttpClient" where
  \<comment> \<open>\<^verbatim>\<open>__init__(url, token, authorization_method, timeout)\<close>\<close>
  "init u tok am t =
     \<lparr>url = u, token = tok, authorization_method = am, timeout = t,
      headers = [''Content-Type'' \<mapsto> ''application/json''],
      response = None\<rparr>"

subsection \<open>request\<close>

definition caller_headers :: "(string \<rightharpoonup> string) option \<Rightarrow> (string \<rightharpoonup> string)" where
  \<comment> \<open>\<^verbatim>\<open>headers or {}\<close>\<close>
  "caller_headers hdrs = (case hdrs of None \<Rightarrow> Map.empty | Some h \<Rightarrow> h)"

definition merged_headers :: "HttpClient \<Rightarrow> (string \<rightharpoonup> string) option \<Rightarrow> (string \<rightharpoonup> string)" where
  \<comment> \<open>line 86: \<^verbatim>\<open>{**self.headers, **(headers or {})}\<close>\<close>
  "merged_headers self hdrs = headers self ++ caller_headers hdrs"

definition effective_headers :: "HttpClient \<Rightarrow> (string \<rightharpoonup> string) option \<Rightarrow> (string \<rightharpoonup> string)" where
  \<comment> \<open>lines 86 to 90: the merge, then the authorization token\<close>
  "effective_headers self hdrs =
     (let h = merged_headers self hdrs in
      if strip (token self) \<noteq> ''''
      then h(''Authorization'' \<mapsto> value_of (authorization_method self) @ '' '' @ token self)
      else h)"

definition effective_timeout :: "HttpClient \<Rightarrow> real option \<Rightarrow> real" where
  \<comment> \<open>line 92: \<^verbatim>\<open>timeout or self.timeout\<close>; \<^verbatim>\<open>None\<close> and zero are the falsy values\<close>
  "effective_timeout self t =
     (case t of None \<Rightarrow> timeout self
      | Some x \<Rightarrow> if x = 0 then timeout self else x)"

definition body_of :: "(string \<times> json_value) list option \<Rightarrow> (string \<times> json_value) list" where
  \<comment> \<open>\<^verbatim>\<open>{} if data is None else data.dict()\<close>, the model given by its \<^verbatim>\<open>dict()\<close>\<close>
  "body_of d = (case d of None \<Rightarrow> [] | Some kvs \<Rightarrow> kvs)"

definition dispatch ::
  "env \<Rightarrow> HttpClient \<Rightarrow> string \<Rightarrow> string \<Rightarrow> (string \<rightharpoonup> string) \<Rightarrow>
   (string \<rightharpoonup> string) option \<Rightarrow> (string \<times> json_value) list option \<Rightarrow> real \<Rightarrow>
   (exn + Response) \<times> Call list" where
  \<comment> \<open>lines 95 to 129, the body of the \<^verbatim>\<open>try\<close>: the response or the exception raised,
      and the calls made on the client\<close>
  "dispatch e self method u h params d t =
     (case Client e (url self) (headers self) of
        Some x \<Rightarrow> (Inl x, [])
      | None \<Rightarrow>
         (let c = \<lparr>client_method = lower method, base_url = url self,
                   client_headers = headers self, url_arg = u, headers_arg = h,
                   params_arg = params, data_arg = None, timeout_arg = t\<rparr>
          in if lower method = ''get'' then (send e c, [c])
             else if lower method = ''patch''
               then (send e (c\<lparr>data_arg := Some (body_of d)\<rparr>), [c\<lparr>data_arg := Some (body_of d)\<rparr>])
             else if lower method = ''post''
               then (send e (c\<lparr>data_arg := Some (body_of d)\<rparr>), [c\<lparr>data_arg := Some (body_of d)\<rparr>])
             else if lower method = ''delete'' then (send e c, [c])
             else (Inl (Raised (HttpClientError
                      (JString (''Unsupported method: '' @ method)) None (Some 405))), [])))"

fun handler :: "env \<Rightarrow> exn \<Rightarrow> error" where
  \<comment> \<open>lines 130 to 139, the \<^verbatim>\<open>except\<close> clauses in their order\<close>
  "handler e (TimeoutException s) = HttpClientTimeout"
| "handler e (ConnectionError s) = HttpClientError (JString ''Server not reachable.'') None None"
| "handler e x = HttpClientError (JString (''Unknown error. '' @ repr e x)) None None"

definition check_rate_limit :: "Response \<Rightarrow> error option" where
  \<comment> \<open>lines 151 to 164; \<open>Some\<close> the exception raised there, \<open>None\<close> when control goes on\<close>
  "check_rate_limit r =
     (case response_headers r ''X-Ratelimit-Limit'' of
        None \<Rightarrow> None
      | Some limit \<Rightarrow>
         (case response_headers r ''X-Ratelimit-Remaining'' of
            None \<Rightarrow> Some (KeyError ''X-Ratelimit-Remaining'')
          | Some remaining \<Rightarrow>
             (case response_headers r ''X-Ratelimit-Reset'' of
                None \<Rightarrow> Some (KeyError ''X-Ratelimit-Reset'')
              | Some reset \<Rightarrow>
                 (case response_headers r ''X-Ratelimit-Retry'' of
                    None \<Rightarrow> Some (KeyError ''X-Ratelimit-Retry'')
                  | Some retry \<Rightarrow>
                     if py_eq (PyStr remaining) (PyInt 0)
                     then Some (HttpRateLimitExceeded r limit remaining reset retry)
                     else None))))"

definition extract_message :: "Response \<Rightarrow> string \<Rightarrow> string \<Rightarrow> json_value" where
  \<comment> \<open>the message read from the body under \<open>key\<close>, or the default when reading raises\<close>
  "extract_message r key dflt =
     (case json r of
        Inl x \<Rightarrow> JString dflt
      | Inr v \<Rightarrow> (case subscript v key of None \<Rightarrow> JString dflt | Some m \<Rightarrow> m))"

definition classify :: "Response \<Rightarrow> error + json_value" where
  \<comment> \<open>lines 141 to 183, on the response stored in \<^verbatim>\<open>self.response\<close>\<close>
  "classify r =
     (if 200 \<le> status_code r \<and> status_code r \<le> 299 then
        (if body_text r \<noteq> '''' then
           (case json r of
              Inr v \<Rightarrow> Inr v
            | Inl x \<Rightarrow> Inl (HttpClientError
                (JString (''Error while parsing server response: '' @ x)) (Some r) None))
         else Inr (JObject []))
      else
        (case check_rate_limit r of
           Some err \<Rightarrow> Inl err
         | None \<Rightarrow>
            (case ERRORS (status_code r) of
               Some message \<Rightarrow> Inl (HttpClientError (JString message) (Some r) None)
             | None \<Rightarrow>
                if status_code r = 400
                then Inl (HttpClientError (extract_message r ''error'' ''Bad Request.'') (Some r) None)
                else Inl (HttpClientError (extract_message r ''message'' ''Unknown error.'') (Some r) None))))"

definition request ::
  "env \<Rightarrow> HttpClient \<Rightarrow> string \<Rightarrow> string \<Rightarrow> (string \<rightharpoonup> string) option \<Rightarrow>
   (string \<rightharpoonup> string) option \<Rightarrow> (string \<times> json_value) list option \<Rightarrow> real option \<Rightarrow>
   (error + json_value) \<times> HttpClient \<times> Call list" where
  \<comment> \<open>\<^verbatim>\<open>request(self, method, url, headers, params, data, timeout)\<close>: the value returned
      or the exception raised, the client object afterwards, and the calls made\<close>
  "request e self method u hdrs params d t =
     (case dispatch e self method u (effective_headers self hdrs) params d
             (effective_timeout self t) of
        (Inl x, calls) \<Rightarrow> (Inl (handler e x), self, calls)
      | (Inr r, calls) \<Rightarrow> (classify r, self\<lparr>response := Some r\<rparr>, calls))"

definition received ::
  "env \<Rightarrow> HttpClient \<Rightarrow> string \<Rightarrow> string \<Rightarrow> (string \<rightharpoonup> string) option \<Rightarrow>
   (string \<rightharpoonup> string) option \<Rightarrow> (string \<times> json_value) list option \<Rightarrow> real option \<Rightarrow>
   Response option" where
  \<comment> \<open>the response that the \<^verbatim>\<open>try\<close> statement of this call of \<open>request\<close> assigns to
      \<^verbatim>\<open>self.response\<close>; \<open>None\<close> when it raises instead\<close>
  "received e self method u hdrs params d t =
     (case fst (dispatch e self method u (effective_headers self hdrs) params d
                  (effective_timeout self t)) of
        Inr r \<Rightarrow> Some r
      | Inl x \<Rightarrow> None)"

definition sent ::
  "env \<Rightarrow> HttpClient \<Rightarrow> string \<Rightarrow> string \<Rightarrow> (string \<rightharpoonup> string) option \<Rightarrow>
   (string \<rightharpoonup> string) option \<Rightarrow> (string \<times> json_value) list option \<Rightarrow> real option \<Rightarrow>
   Call list" where
  \<comment> \<open>the calls that this call of \<open>request\<close> makes on the \<^verbatim>\<open>httpx\<close> client\<close>
  "sent e self method u hdrs params d t = snd (snd (request e self method u hdrs params d t))"

subsection \<open>Concrete clients, servers and responses\<close>

fun example_repr :: "exn \<Rightarrow> string" where
  "example_repr (TimeoutException s) = ''TimeoutException('' @ s @ '')''"
| "example_repr (ConnectionError s) = ''ConnectionError('' @ s @ '')''"
| "example_repr (OtherException s) = ''Exception('' @ s @ '')''"
| "example_repr (Raised (HttpClientError (JString m) r c)) = ''HttpClientError('' @ m @ '')''"
| "example_repr (Raised x) = ''Error()''"

definition replying :: "Response \<Rightarrow> env" where
  \<comment> \<open>a server that answers every call with the response \<open>r\<close>\<close>
  "replying r = \<lparr>Client = (\<lambda>u h. None), send = (\<lambda>c. Inr r), repr = example_repr\<rparr>"

definition example_client :: HttpClient where
  "example_client = init ''https://paperswithcode.com/api/v1'' ''secret'' jwt_method 10"

definition anonymous_client :: HttpClient where
  "anonymous_client = init ''https://paperswithcode.com/api/v1'' '' '' jwt_method 10"

definition ok_empty :: Response where
  "ok_empty = \<lparr>status_code = 204, body_text = '''', response_headers = Map.empty,
     json = Inl ''JSONDecodeError''\<rparr>"

definition ok_json :: Response where
  \<open>ok_json = \<lparr>status_code = 200, body_text = ''{"count": 1}'', response_headers = Map.empty,
     json = Inr (JObject [(''count'', JInt 1)])\<rparr>\<close>

definition ok_malformed :: Response where
  "ok_malformed = \<lparr>status_code = 200, body_text = ''<html>'', response_headers = Map.empty,
     json = Inl ''JSONDecodeError''\<rparr>"

definition too_many :: Response where
  "too_many = \<lparr>status_code = 429, body_text = '''',
     response_headers =
       [''X-Ratelimit-Limit'' \<mapsto> ''100'', ''X-Ratelimit-Remaining'' \<mapsto> ''0'',
        ''X-Ratelimit-Reset'' \<mapsto> ''60'', ''X-Ratelimit-Retry'' \<mapsto> ''60''],
     json = Inl ''JSONDecodeError''\<rparr>"

definition limit_only :: Response where
  "limit_only = \<lparr>status_code = 429, body_text = '''',
     response_headers = [''X-Ratelimit-Limit'' \<mapsto> ''100''],
     json = Inl ''JSONDecodeError''\<rparr>"

definition broke_it :: Response where
  "broke_it = \<lparr>status_code = 500, body_text = ''<html>'', response_headers = Map.empty,
     json = Inl ''JSONDecodeError''\<rparr>"

definition not_found :: Response where
  "not_found = \<lparr>status_code = 404, body_text = ''<html>'', response_headers = Map.empty,
     json = Inl ''JSONDecodeError''\<rparr>"




fun is_mapping :: "json_value \<Rightarrow> bool" where
  \<comment> \<open>whether a parsed value is a Python \<^verbatim>\<open>dict\<close>\<close>
  "is_mapping (JObject kvs) = True"
| "is_mapping v = False"

definition basic_client :: HttpClient where
  "basic_client = init ''https://paperswithcode.com/api/v1'' ''secret'' basic_method 10"

definition token_client :: HttpClient where
  "token_client = init ''https://paperswithcode.com/api/v1'' ''secret'' token_method 10"

definition ok_null :: Response where
  "ok_null = \<lparr>status_code = 200, body_text = ''null'', response_headers = Map.empty,
     json = Inr JNull\<rparr>"


subsection \<open>The parts of request\<close>

lemma request_received:
  "received e self m u hdrs p d t = Some r \<Longrightarrow>
   request e self m u hdrs p d t =
     (classify r, self\<lparr>response := Some r\<rparr>,
      snd (dispatch e self m u (effective_headers self hdrs) p d (effective_timeout self t)))"
  by (auto simp: received_def request_def split: prod.splits sum.splits)

lemma request_not_received:
  "received e self m u hdrs p d t = None \<Longrightarrow>
   \<exists>x. fst (dispatch e self m u (effective_headers self hdrs) p d (effective_timeout self t)) = Inl x
     \<and> request e self m u hdrs p d t =
        (Inl (handler e x), self,
         snd (dispatch e self m u (effective_headers self hdrs) p d (effective_timeout self t)))"
  by (auto simp: received_def request_def split: prod.splits sum.splits)

lemma dispatch_calls:
  "c \<in> set (snd (dispatch e self m u h p d t)) \<Longrightarrow> headers_arg c = h \<and> timeout_arg c = t"
  by (auto simp: dispatch_def Let_def split: option.splits if_splits)

lemma sent_dispatch:
  "sent e self m u hdrs p d t =
   snd (dispatch e self m u (effective_headers self hdrs) p d (effective_timeout self t))"
  by (auto simp: sent_def request_def split: prod.splits sum.splits)

lemma sent_args:
  "c \<in> set (sent e self m u hdrs p d t) \<Longrightarrow>
   headers_arg c = effective_headers self hdrs \<and> timeout_arg c = effective_timeout self t"
  by (simp add: sent_dispatch dispatch_calls)


lemma all_dropWhile_iff: "(\<forall>x\<in>set (dropWhile P xs). P x) \<longleftrightarrow> (\<forall>x\<in>set xs. P x)"
  by (induction xs) auto

lemma strip_empty_iff: "strip s = '''' \<longleftrightarrow> (\<forall>c\<in>set s. isspace c)"
  unfolding strip_def by (simp add: all_dropWhile_iff)

lemma received_replying:
  "lower m \<in> {''get'', ''patch'', ''post'', ''delete''} \<Longrightarrow>
   received (replying r) self m u hdrs p d t = Some r"
  by (auto simp: received_def dispatch_def replying_def Let_def)

lemma lower_get: "lower ''get'' = ''get''"
  by code_simp

subsection \<open>Responses with a status from 200 to 299\<close>

text \<open>
  C4 as stated fails: what \<open>request\<close> returns for a body that parses is not always a
  mapping. For a 200 response with the body "null" it returns \<^verbatim>\<open>None\<close>, the value
  that \<^verbatim>\<open>response.json()\<close> parses.
\<close>

theorem request_null_body_counterexample:
  "status_code ok_null = 200
   \<and> fst (request (replying ok_null) example_client ''get'' ''/papers/'' None None None None)
     = Inr JNull
   \<and> \<not> is_mapping JNull"
  by (simp add: request_received [OF received_replying] lower_get classify_def ok_null_def)

text \<open>
  C4, amended. When the call receives a response whose status is in [200, 299], \<open>request\<close>
  returns the empty mapping for an empty body; for a body that is not empty it returns
  the value that \<^verbatim>\<open>response.json()\<close> parses, of whatever JSON type (a mapping when the
  body is a JSON object), and when the parser raises it raises the error built at line
  145, whose message starts with "Error while parsing server response: " and which
  carries the response.
\<close>

theorem request_success_body:
  assumes "received e self m u hdrs p d t = Some r"
    and "200 \<le> status_code r" and "status_code r \<le> 299"
  shows "fst (request e self m u hdrs p d t) =
     (if body_text r = '''' then Inr (JObject [])
      else case json r of
             Inr v \<Rightarrow> Inr v
           | Inl x \<Rightarrow> Inl (HttpClientError
               (JString (''Error while parsing server response: '' @ x)) (Some r) None))"
  using assms by (simp add: request_received classify_def split: sum.splits)

theorem request_success_body_witness:
  "received (replying ok_empty) example_client ''get'' ''/papers/'' None None None None
     = Some ok_empty
   \<and> 200 \<le> status_code ok_empty \<and> status_code ok_empty \<le> 299
   \<and> fst (request (replying ok_empty) example_client ''get'' ''/papers/'' None None None None)
     = Inr (JObject [])
   \<and> fst (request (replying ok_json) example_client ''get'' ''/papers/'' None None None None)
     = Inr (JObject [(''count'', JInt 1)])
   \<and> fst (request (replying ok_malformed) example_client ''get'' ''/papers/'' None None None None)
     = Inl (HttpClientError (JString ''Error while parsing server response: JSONDecodeError'')
         (Some ok_malformed) None)"
proof -
  have rcv: "received (replying r) example_client ''get'' ''/papers/'' None None None None = Some r"
    for r by (simp add: received_replying lower_get)
  have "fst (request (replying ok_empty) example_client ''get'' ''/papers/'' None None None None)
     = Inr (JObject [])"
    using request_success_body [OF rcv, of ok_empty] by (simp add: ok_empty_def)
  moreover have "fst (request (replying ok_json) example_client ''get'' ''/papers/'' None None None None)
     = Inr (JObject [(''count'', JInt 1)])"
    using request_success_body [OF rcv, of ok_json] by (simp add: ok_json_def)
  moreover have "fst (request (replying ok_malformed) example_client ''get'' ''/papers/'' None None None None)
     = Inl (HttpClientError (JString ''Error while parsing server response: JSONDecodeError'')
         (Some ok_malformed) None)"
    using request_success_body [OF rcv, of ok_malformed] by (simp add: ok_malformed_def)
  ultimately show ?thesis
    using rcv [of ok_empty] by (simp add: ok_empty_def)
qed

subsection \<open>Responses with another status\<close>

lemma get_received:
  "received (replying r) example_client ''get'' ''/papers/'' None None None None = Some r"
  by (simp add: received_replying lower_get)

lemma check_rate_limit_never_exceeded:
  "check_rate_limit r \<noteq> Some (HttpRateLimitExceeded r' limit remaining reset retry)"
  by (simp add: check_rate_limit_def split: option.splits)

lemma handler_never_exceeded:
  "handler e x \<noteq> HttpRateLimitExceeded r limit remaining reset retry"
  by (cases x) simp_all

lemma classify_never_exceeded:
  "classify r \<noteq> Inl (HttpRateLimitExceeded r' limit remaining reset retry)"
  using check_rate_limit_never_exceeded [of r r' limit remaining reset retry]
  by (auto simp: classify_def split: option.splits sum.splits)

lemma request_never_exceeded:
  "fst (request e self m u hdrs p d t)
     \<noteq> Inl (HttpRateLimitExceeded r limit remaining reset retry)"
proof (cases "received e self m u hdrs p d t")
  case None
  from request_not_received [OF None] show ?thesis
    by (auto simp: handler_never_exceeded)
next
  case (Some r')
  then show ?thesis
    by (simp add: request_received classify_never_exceeded)
qed

lemma check_rate_limit_with_limit:
  "response_headers r ''X-Ratelimit-Limit'' \<noteq> None \<Longrightarrow>
   check_rate_limit r =
     (if response_headers r ''X-Ratelimit-Remaining'' = None
      then Some (KeyError ''X-Ratelimit-Remaining'')
      else if response_headers r ''X-Ratelimit-Reset'' = None
      then Some (KeyError ''X-Ratelimit-Reset'')
      else if response_headers r ''X-Ratelimit-Retry'' = None
      then Some (KeyError ''X-Ratelimit-Retry'')
      else None)"
  by (auto simp: check_rate_limit_def split: option.splits)

lemma classify_rate_limit_raises:
  "\<not> (200 \<le> status_code r \<and> status_code r \<le> 299) \<Longrightarrow> check_rate_limit r = Some x \<Longrightarrow>
   classify r = Inl x"
  by (auto simp: classify_def)

text \<open>
  C1. The failing input: a 429 response with \<^verbatim>\<open>X-Ratelimit-Limit: 100\<close>,
  \<^verbatim>\<open>X-Ratelimit-Remaining: 0\<close>, \<^verbatim>\<open>X-Ratelimit-Reset: 60\<close> and
  \<^verbatim>\<open>X-Ratelimit-Retry: 60\<close>. Line 157 compares the header's string with the
  integer 0, which are never equal, so \<open>request\<close> does not raise HttpRateLimitExceeded: it
  raises the error of the table of known codes for 429.
\<close>

theorem request_remaining_zero_429:
  "response_headers too_many ''X-Ratelimit-Remaining'' = Some ''0''
   \<and> fst (request (replying too_many) example_client ''get'' ''/papers/'' None None None None)
     = Inl (HttpClientError (JString ''Under pressure! (Too many requests)'')
         (Some too_many) None)
   \<and> fst (request (replying too_many) example_client ''get'' ''/papers/'' None None None None)
     \<noteq> Inl (HttpRateLimitExceeded too_many ''100'' ''0'' ''60'' ''60'')"
  by (simp add: request_received [OF get_received] classify_def check_rate_limit_def
      ERRORS_def too_many_def)

text \<open>
  C3 as the spec words it fails: for a 500 response the message of the error is the
  table's "You broke it!!!", not "Internal error".
\<close>

theorem request_500_message_counterexample:
  "fst (request (replying broke_it) example_client ''get'' ''/papers/'' None None None None)
     = Inl (HttpClientError (JString ''You broke it!!!'') (Some broke_it) None)
   \<and> fst (request (replying broke_it) example_client ''get'' ''/papers/'' None None None None)
     \<noteq> Inl (HttpClientError (JString ''Internal error'') (Some broke_it) None)"
  by (simp add: request_received [OF get_received] classify_def check_rate_limit_def
      ERRORS_def broke_it_def)

text \<open>
  C3, amended. When the call receives a response whose status is one of 401, 403, 404,
  409, 429, 500, 502, 503 and the rate-limit check of lines 151 to 164 raises nothing,
  \<open>request\<close> raises HttpClientError carrying the response and the message that the
  table ERRORS has for the status: "Unauthorized", "Forbidden!", "Not found.",
  "Conflict", "Under pressure! (Too many requests)", "You broke it!!!",
  "Server not reachable.", "Server under maintenance.".
\<close>

theorem request_known_status:
  assumes "received e self m u hdrs p d t = Some r"
    and "check_rate_limit r = None"
    and "status_code r \<in> {401, 403, 404, 409, 429, 500, 502, 503}"
  shows "fst (request e self m u hdrs p d t) =
     Inl (HttpClientError (JString
       (if status_code r = 401 then ''Unauthorized''
        else if status_code r = 403 then ''Forbidden!''
        else if status_code r = 404 then ''Not found.''
        else if status_code r = 409 then ''Conflict''
        else if status_code r = 429 then ''Under pressure! (Too many requests)''
        else if status_code r = 500 then ''You broke it!!!''
        else if status_code r = 502 then ''Server not reachable.''
        else ''Server under maintenance.'')) (Some r) None)"
  using assms by (auto simp: request_received classify_def ERRORS_def)

theorem request_known_status_witness:
  "received (replying not_found) example_client ''get'' ''/papers/'' None None None None
     = Some not_found
   \<and> check_rate_limit not_found = None
   \<and> status_code not_found \<in> {401, 403, 404, 409, 429, 500, 502, 503}
   \<and> fst (request (replying not_found) example_client ''get'' ''/papers/'' None None None None)
     = Inl (HttpClientError (JString ''Not found.'') (Some not_found) None)"
proof -
  have c: "check_rate_limit not_found = None"
    by (simp add: check_rate_limit_def not_found_def)
  have s: "status_code not_found \<in> {401, 403, 404, 409, 429, 500, 502, 503}"
    by (simp add: not_found_def)
  show ?thesis
    using request_known_status [OF get_received c s] get_received [of not_found] c
    by (simp add: not_found_def)
qed




text \<open>
  C10. When the call receives a response whose status is outside [200, 299] and that has
  the header X-Ratelimit-Limit: if one of X-Ratelimit-Remaining, X-Ratelimit-Reset and
  X-Ratelimit-Retry is absent, \<open>request\<close> raises Python's KeyError for the first absent one,
  which is none of the errors of the client; if the three are present, their values stay
  strings, the comparison with the integer 0 fails whatever they are, and the check
  raises nothing.
\<close>

theorem request_rate_limit_header_missing:
  assumes "received e self m u hdrs p d t = Some r"
    and "\<not> (200 \<le> status_code r \<and> status_code r \<le> 299)"
    and "response_headers r ''X-Ratelimit-Limit'' \<noteq> None"
  shows "(if response_headers r ''X-Ratelimit-Remaining'' = None
             \<or> response_headers r ''X-Ratelimit-Reset'' = None
             \<or> response_headers r ''X-Ratelimit-Retry'' = None
          then fst (request e self m u hdrs p d t) =
                 Inl (KeyError
                   (if response_headers r ''X-Ratelimit-Remaining'' = None
                    then ''X-Ratelimit-Remaining''
                    else if response_headers r ''X-Ratelimit-Reset'' = None
                    then ''X-Ratelimit-Reset''
                    else ''X-Ratelimit-Retry''))
          else check_rate_limit r = None)"
proof -
  note c = check_rate_limit_with_limit [OF assms(3)]
  show ?thesis
  proof (cases "check_rate_limit r")
    case None
    then show ?thesis using c by (auto split: if_splits)
  next
    case (Some x)
    then have "fst (request e self m u hdrs p d t) = Inl x"
      using assms(1,2) by (simp add: request_received classify_rate_limit_raises)
    then show ?thesis using c Some by (auto split: if_splits)
  qed
qed

theorem request_rate_limit_header_missing_witness:
  "received (replying limit_only) example_client ''get'' ''/papers/'' None None None None
     = Some limit_only
   \<and> \<not> (200 \<le> status_code limit_only \<and> status_code limit_only \<le> 299)
   \<and> response_headers limit_only ''X-Ratelimit-Limit'' \<noteq> None
   \<and> response_headers limit_only ''X-Ratelimit-Remaining'' = None
   \<and> fst (request (replying limit_only) example_client ''get'' ''/papers/'' None None None None)
     = Inl (KeyError ''X-Ratelimit-Remaining'')
   \<and> check_rate_limit too_many = None"
proof -
  have a: "\<not> (200 \<le> status_code limit_only \<and> status_code limit_only \<le> 299)"
    and b: "response_headers limit_only ''X-Ratelimit-Limit'' \<noteq> None"
    and c: "response_headers limit_only ''X-Ratelimit-Remaining'' = None"
    by (simp_all add: limit_only_def)
  have a': "\<not> (200 \<le> status_code too_many \<and> status_code too_many \<le> 299)"
    and b': "response_headers too_many ''X-Ratelimit-Limit'' \<noteq> None"
    by (simp_all add: too_many_def)
  have "fst (request (replying limit_only) example_client ''get'' ''/papers/'' None None None None)
     = Inl (KeyError ''X-Ratelimit-Remaining'')"
    using request_rate_limit_header_missing [OF get_received a b] c by simp
  moreover have "check_rate_limit too_many = None"
    using request_rate_limit_header_missing [OF get_received a' b']
    by (simp add: too_many_def)
  ultimately show ?thesis
    using a b c get_received [of limit_only] by simp
qed

subsection \<open>The headers and the timeout of the call\<close>

lemma sent_replying:
  "lower m = ''get'' \<Longrightarrow>
   sent (replying r) self m u hdrs p d t =
     [\<lparr>client_method = ''get'', base_url = url self, client_headers = headers self,
       url_arg = u, headers_arg = effective_headers self hdrs, params_arg = p,
       data_arg = None, timeout_arg = effective_timeout self t\<rparr>]"
  by (simp add: sent_dispatch dispatch_def replying_def)

lemma sent_one_call:
  "Client e (url self) (headers self) = None \<Longrightarrow>
   lower m \<in> {''get'', ''patch'', ''post'', ''delete''} \<Longrightarrow>
   \<exists>c. sent e self m u hdrs p d t = [c]"
  by (auto simp: sent_dispatch dispatch_def Let_def)

text \<open>
  C5. In every call that \<open>request\<close> makes on the \<^verbatim>\<open>httpx\<close> client: when the
  configured token is not empty after \<^verbatim>\<open>strip()\<close>, the headers passed are the merged
  headers of line 86 with Authorization set to "<scheme> <token>", the scheme being
  "Basic" for the method basic, "Token" for the method token and "JWT" for the method
  jwt, and the token the configured one as it is; when the token is empty or only
  whitespace, the headers passed are the merged headers and nothing is added.
\<close>

theorem request_authorization_header:
  assumes "c \<in> set (sent e self m u hdrs p d t)"
  shows "headers_arg c =
     (if strip (token self) \<noteq> ''''
      then (merged_headers self hdrs)(''Authorization'' \<mapsto>
             (case authorization_method self of
                basic_method \<Rightarrow> ''Basic''
              | token_method \<Rightarrow> ''Token''
              | jwt_method \<Rightarrow> ''JWT'') @ '' '' @ token self)
      else merged_headers self hdrs)"
  using sent_args [OF assms]
  by (cases "authorization_method self") (simp_all add: effective_headers_def Let_def)

theorem request_authorization_header_witness:
  "map (\<lambda>c. headers_arg c ''Authorization'')
     (sent (replying ok_json) basic_client ''get'' ''/papers/'' None None None None)
     = [Some ''Basic secret'']
   \<and> map (\<lambda>c. headers_arg c ''Authorization'')
     (sent (replying ok_json) token_client ''get'' ''/papers/'' None None None None)
     = [Some ''Token secret'']
   \<and> map (\<lambda>c. headers_arg c ''Authorization'')
     (sent (replying ok_json) example_client ''get'' ''/papers/'' None None None None)
     = [Some ''JWT secret'']
   \<and> map (\<lambda>c. headers_arg c ''Authorization'')
     (sent (replying ok_json) anonymous_client ''get'' ''/papers/'' None None None None)
     = [None]"
proof -
  have one: "\<exists>c. sent (replying ok_json) self ''get'' ''/papers/'' None None None None = [c]"
    for self by (simp add: sent_replying lower_get)
  obtain a where a: "sent (replying ok_json) basic_client ''get'' ''/papers/'' None None None None = [a]"
    using one by blast
  obtain b where b: "sent (replying ok_json) token_client ''get'' ''/papers/'' None None None None = [b]"
    using one by blast
  obtain c where c: "sent (replying ok_json) example_client ''get'' ''/papers/'' None None None None = [c]"
    using one by blast
  obtain c' where c': "sent (replying ok_json) anonymous_client ''get'' ''/papers/'' None None None None = [c']"
    using one by blast
  have "headers_arg a ''Authorization'' = Some ''Basic secret''"
    using request_authorization_header
      [of a "replying ok_json" basic_client "''get''" "''/papers/''" None None None None] a
    by (simp add: basic_client_def init_def strip_def isspace_def)
  moreover have "headers_arg b ''Authorization'' = Some ''Token secret''"
    using request_authorization_header
      [of b "replying ok_json" token_client "''get''" "''/papers/''" None None None None] b
    by (simp add: token_client_def init_def strip_def isspace_def)
  moreover have "headers_arg c ''Authorization'' = Some ''JWT secret''"
    using request_authorization_header
      [of c "replying ok_json" example_client "''get''" "''/papers/''" None None None None] c
    by (simp add: example_client_def init_def strip_def isspace_def)
  moreover have "headers_arg c' ''Authorization'' = None"
    using request_authorization_header
      [of c' "replying ok_json" anonymous_client "''get''" "''/papers/''" None None None None] c'
    by (simp add: anonymous_client_def init_def strip_def isspace_def merged_headers_def
        caller_headers_def)
  ultimately show ?thesis
    using a b c c' by simp
qed

text \<open>
  C7 as stated fails: a caller's Authorization header is not preserved when a token is
  configured. The client holds the token "secret" with the method JWT, the caller passes
  Authorization "Basic dXNlcg==", and the call carries "JWT secret".
\<close>

theorem request_caller_authorization_counterexample:
  "map (\<lambda>c. headers_arg c ''Authorization'')
     (sent (replying ok_json) example_client ''get'' ''/papers/''
        (Some [''Authorization'' \<mapsto> ''Basic dXNlcg==''])  None None None)
     = [Some ''JWT secret'']
   \<and> map (\<lambda>c. headers_arg c ''Authorization'')
     (sent (replying ok_json) example_client ''get'' ''/papers/''
        (Some [''Authorization'' \<mapsto> ''Basic dXNlcg==''])  None None None)
     \<noteq> [Some ''Basic dXNlcg=='']"
  by (simp add: sent_replying lower_get effective_headers_def merged_headers_def
      caller_headers_def example_client_def init_def strip_def isspace_def)

text \<open>
  C7, amended. For a client whose default headers are those of the constructor, the
  headers of every call that \<open>request\<close> makes on the \<^verbatim>\<open>httpx\<close> client are exactly
  the caller's headers merged on top of Content-Type "application/json", with
  Authorization then set to "<scheme> <token>" when the configured token is not blank:
  under Authorization with a token that is not blank, the injected value; under any other
  key the caller's value if the caller gave one; otherwise "application/json" under
  Content-Type and nothing under any other key. So Content-Type is always present.
\<close>

theorem request_headers_merged:
  assumes "headers self = [''Content-Type'' \<mapsto> ''application/json'']"
    and "c \<in> set (sent e self m u hdrs p d t)"
  shows "(\<forall>k. headers_arg c k =
            (if k = ''Authorization'' \<and> strip (token self) \<noteq> ''''
             then Some (value_of (authorization_method self) @ '' '' @ token self)
             else case caller_headers hdrs k of
                    Some v \<Rightarrow> Some v
                  | None \<Rightarrow> if k = ''Content-Type'' then Some ''application/json'' else None))
         \<and> headers_arg c ''Content-Type'' =
             Some (case caller_headers hdrs ''Content-Type'' of
                     Some v \<Rightarrow> v | None \<Rightarrow> ''application/json'')"
  using sent_args [OF assms(2)] assms(1)
  by (auto simp: effective_headers_def merged_headers_def map_add_def
      Let_def split: option.splits)

theorem request_headers_merged_witness:
  "headers example_client = [''Content-Type'' \<mapsto> ''application/json'']
   \<and> map (\<lambda>c. (headers_arg c ''Content-Type'', headers_arg c ''Accept'',
               headers_arg c ''Authorization'', headers_arg c ''X-Other''))
       (sent (replying ok_json) example_client ''get'' ''/papers/''
          (Some [''Accept'' \<mapsto> ''text/plain''])  None None None)
     = [(Some ''application/json'', Some ''text/plain'', Some ''JWT secret'', None)]
   \<and> map (\<lambda>c. (headers_arg c ''Content-Type'', headers_arg c ''Authorization''))
       (sent (replying ok_json) anonymous_client ''get'' ''/papers/''
          (Some [''Content-Type'' \<mapsto> ''text/plain''])  None None None)
     = [(Some ''text/plain'', None)]"
proof -
  have h: "headers example_client = [''Content-Type'' \<mapsto> ''application/json'']"
    by (simp add: example_client_def init_def)
  have h': "headers anonymous_client = [''Content-Type'' \<mapsto> ''application/json'']"
    by (simp add: anonymous_client_def init_def)
  have s: "strip (token example_client) \<noteq> ''''"
    by (simp add: example_client_def init_def strip_def isspace_def)
  have s': "strip (token anonymous_client) = ''''"
    by (simp add: anonymous_client_def init_def strip_def isspace_def)
  have v: "value_of (authorization_method example_client) @ '' '' @ token example_client
      = ''JWT secret''"
    by (simp add: example_client_def init_def)
  obtain c where c: "sent (replying ok_json) example_client ''get'' ''/papers/''
      (Some [''Accept'' \<mapsto> ''text/plain'']) None None None = [c]"
    by (simp add: sent_replying lower_get)
  obtain c' where c': "sent (replying ok_json) anonymous_client ''get'' ''/papers/''
      (Some [''Content-Type'' \<mapsto> ''text/plain'']) None None None = [c']"
    by (simp add: sent_replying lower_get)
  have "headers_arg c ''Content-Type'' = Some ''application/json''
      \<and> headers_arg c ''Accept'' = Some ''text/plain''
      \<and> headers_arg c ''Authorization'' = Some ''JWT secret''
      \<and> headers_arg c ''X-Other'' = None"
    using request_headers_merged [OF h, of c "replying ok_json" "''get''" "''/papers/''"
        "Some [''Accept'' \<mapsto> ''text/plain'']" None None None] c s v
    by (simp add: caller_headers_def)
  moreover have "headers_arg c' ''Content-Type'' = Some ''text/plain''
      \<and> headers_arg c' ''Authorization'' = None"
    using request_headers_merged [OF h', of c' "replying ok_json" "''get''" "''/papers/''"
        "Some [''Content-Type'' \<mapsto> ''text/plain'']" None None None] c' s'
    by (simp add: caller_headers_def)
  ultimately show ?thesis
    using h c c' by simp
qed

text \<open>
  C9. In every call that \<open>request\<close> makes on the \<^verbatim>\<open>httpx\<close> client, the timeout is
  the configured default when the override is omitted or is zero, and a call of
  \<open>request\<close> with the override zero is the same as the call with the override omitted.
  Among the overrides that are not negative, the strictly positive ones are passed on as
  they are, and only they can replace the default.
\<close>

theorem request_timeout_override:
  assumes "c \<in> set (sent e self m u hdrs p d t)"
  shows "(t = None \<or> t = Some 0 \<longrightarrow> timeout_arg c = timeout self)
         \<and> (\<forall>x. t = Some x \<and> 0 < x \<longrightarrow> timeout_arg c = x)
         \<and> (\<forall>x. t = Some x \<and> 0 \<le> x \<and> timeout_arg c \<noteq> timeout self \<longrightarrow> 0 < x)
         \<and> request e self m u hdrs p d (Some 0) = request e self m u hdrs p d None"
  using sent_args [OF assms]
  by (auto simp: effective_timeout_def request_def split: if_splits)

theorem request_timeout_override_witness:
  "timeout example_client = 10
   \<and> map timeout_arg
       (sent (replying ok_json) example_client ''get'' ''/papers/'' None None None (Some 0))
     = [10]
   \<and> map timeout_arg
       (sent (replying ok_json) example_client ''get'' ''/papers/'' None None None None)
     = [10]
   \<and> map timeout_arg
       (sent (replying ok_json) example_client ''get'' ''/papers/'' None None None (Some 3))
     = [3]"
proof -
  obtain a where a: "sent (replying ok_json) example_client ''get'' ''/papers/''
      None None None (Some 0) = [a]"
    by (simp add: sent_replying lower_get)
  obtain b where b: "sent (replying ok_json) example_client ''get'' ''/papers/''
      None None None None = [b]"
    by (simp add: sent_replying lower_get)
  obtain c where c: "sent (replying ok_json) example_client ''get'' ''/papers/''
      None None None (Some 3) = [c]"
    by (simp add: sent_replying lower_get)
  have t: "timeout example_client = 10"
    by (simp add: example_client_def init_def)
  have "timeout_arg a = 10"
    using request_timeout_override [of a "replying ok_json" example_client "''get''"
        "''/papers/''" None None None "Some 0"] a t by simp
  moreover have "timeout_arg b = 10"
    using request_timeout_override [of b "replying ok_json" example_client "''get''"
        "''/papers/''" None None None None] b t by simp
  moreover have "timeout_arg c = 3"
    using request_timeout_override [of c "replying ok_json" example_client "''get''"
        "''/papers/''" None None None "Some 3"] c by simp
  ultimately show ?thesis
    using a b c t by simp
qed

subsection \<open>Unsupported methods\<close>

lemma request_unsupported_method:
  assumes "Client e (url self) (headers self) = None"
    and "lower m \<notin> {''get'', ''patch'', ''post'', ''delete''}"
  shows "request e self m u hdrs p d t =
     (Inl (HttpClientError (JString (''Unknown error. '' @
         repr e (Raised (HttpClientError (JString (''Unsupported method: '' @ m)) None (Some 405)))))
       None None), self, [])"
  using assms by (simp add: request_def dispatch_def)

lemma lower_put: "lower ''put'' = ''put''"
  by code_simp

text \<open>
  C2. The failing input: the method "put". No call is made on the \<^verbatim>\<open>httpx\<close> client
  and the client object is unchanged, but the error raised at line 127 with status code
  405 is raised inside the \<^verbatim>\<open>try\<close> statement, so the handler of line 138 catches it:
  what \<open>request\<close> raises is the error of line 139, with the message "Unknown error. "
  followed by the \<^verbatim>\<open>repr\<close> of the first error, and with no status code.
\<close>

theorem request_put_wrapped:
  "request (replying ok_json) example_client ''put'' ''/papers/'' None None None None =
     (Inl (HttpClientError (JString (''Unknown error. '' @
         example_repr (Raised (HttpClientError (JString ''Unsupported method: put'') None (Some 405)))))
       None None), example_client, [])
   \<and> fst (request (replying ok_json) example_client ''put'' ''/papers/'' None None None None)
     \<noteq> Inl (HttpClientError (JString ''Unsupported method: put'') None (Some 405))"
proof -
  have "Client (replying ok_json) (url example_client) (headers example_client) = None"
    by (simp add: replying_def)
  moreover have "lower ''put'' \<notin> {''get'', ''patch'', ''post'', ''delete''}"
    by (simp add: lower_put)
  ultimately show ?thesis
    by (simp add: request_unsupported_method replying_def)
qed

subsection \<open>The client object after the call\<close>



end
